theory Spec2Isabelle
  imports Complex_Main
begin

section \<open>Data model of the medicine request engine\<close>

text \<open>
  The embedding follows \<^verbatim>\<open>models/MedicineRequest.js\<close> (the Mongoose schema with its
  pre-save hook and instance methods), \<^verbatim>\<open>controllers/medicineRequestController.js\<close>
  and the validation middleware of \<^verbatim>\<open>routes/medicineRequest.js\<close>.

  A JavaScript number is a binary64 value. A price is the real number that the value
  denotes, and every arithmetic operation on prices rounds its exact result to the
  nearest binary64 value (section \<open>Numbers\<close>); a number written in decimal stands for
  the binary64 value nearest to it. The distance helper is modelled over an abstract type
  of binary64 values with \<open>NaN\<close> (section \<open>Distances\<close>).

  Object ids are natural numbers. The source compares ids through \<^verbatim>\<open>toString()\<close>;
  what that yields depends on whether the path was populated when the document was loaded
  (section \<open>The schema\<close>). Time stamps are milliseconds as integers, and
  \<^verbatim>\<open>Date.now()\<close> is an explicit argument \<open>now\<close>. A document handed to an operation
  is the one \<^verbatim>\<open>findById\<close> found (the 404 branch is not modelled), and an operation
  that returns an error has not saved anything.

  Fields that no operation below reads are left out: the prescription, rating, payment
  and budget of a request, the message, delivery terms and time stamp of a response, and
  the time stamps and instructions stored with the accepted pharmacy, of which only the
  pharmacy id is kept.
\<close>

type_synonym user_id = nat
type_synonym time = int

datatype req_status = Open | Accepted | Preparing | Ready | Completed | Cancelled | Expired

datatype urgency = Normal | Urgent | Emergency

datatype role = patient_role | user_role | pharmacy_role | instructor_role | admin_role

record user =
  uid :: user_id
  role :: role

record medicine =
  name :: string
  quantity :: "real option"

record location =
  latitude :: "real option"
  longitude :: "real option"

record available_medicine =
  medicineName :: string
  available :: bool
  price :: "real option"

record response =
  pharmacy :: user_id
  availableMedicines :: "available_medicine list"
  totalPrice :: real
  discount :: real
  finalPrice :: real
  isActive :: bool

record request =
  patient :: user_id
  medicines :: "medicine list"
  urgency :: urgency
  coordinates :: "real \<times> real"
  status :: req_status
  responses :: "response list"
  acceptedPharmacy :: "user_id option"
  communication :: "(user_id \<times> string) list"
  request_notes :: string
  expiresAt :: time
  responseCount :: nat

text \<open>
  The controller answers with an HTTP status and a message; the error type names each
  answer after the failure it reports:
  \<^item> \<open>ValidationError m\<close>: 400 from the validation middleware, with its message;
  \<^item> \<open>Unauthorized\<close>: every 403 answer;
  \<^item> \<open>RequestClosed\<close>: 400 "This request is no longer accepting responses";
  \<^item> \<open>DuplicateResponse\<close>: the error "Pharmacy has already responded to this request"
    thrown by \<^verbatim>\<open>addResponse\<close>;
  \<^item> \<open>ResponseNotFound\<close>: the error "Pharmacy response not found" thrown by the schema
    method \<^verbatim>\<open>acceptPharmacy\<close>;
  \<^item> \<open>InvalidTransition\<close>: named by the specification; no operation of the source
    returns it;
  \<^item> \<open>TypeError\<close>: the 500 answer for a \<^verbatim>\<open>TypeError\<close> that a handler catches (a
    method called on \<^verbatim>\<open>undefined\<close>);
  \<^item> \<open>SchemaValidationError\<close>: the 500 answer when Mongoose refuses to create a
    document that lacks a required field.
\<close>

datatype error =
    ValidationError string
  | Unauthorized
  | RequestClosed
  | DuplicateResponse
  | ResponseNotFound
  | InvalidTransition
  | TypeError
  | SchemaValidationError

datatype event =
    new_medicine_request
  | urgent_medicine_request
  | pharmacy_responded
  | request_accepted
  | request_closed
  | request_status_changed
  | new_message
  | prescription_updated

datatype target = ToUser user_id | NearbyPharmacies real real | AllPharmacies

type_synonym notification = "target \<times> event"

type_synonym outcome = "error + request \<times> notification list"

section \<open>Numbers\<close>

text \<open>
  Rounding to the nearest integer, a tie going to the even neighbour.
\<close>

definition round_even :: "real \<Rightarrow> int" where
  "round_even y =
     (let f = \<lfloor>y\<rfloor>
      in if y - of_int f < 1 / 2 then f
         else if y - of_int f > 1 / 2 then f + 1
         else if even f then f else f + 1)"

text \<open>
  The binary64 value nearest to a real, ties to even: 53 significant bits, the exponent
  at least -1022 (below it the spacing stays that of the subnormal numbers). Overflow to
  \<^verbatim>\<open>Infinity\<close> is not modelled: a price that large is rounded as if the exponent had no
  upper limit.
\<close>

definition double_round :: "real \<Rightarrow> real" where
  "double_round x =
     (if x = 0 then 0
      else
        let e = max \<lfloor>log 2 \<bar>x\<bar>\<rfloor> (- 1022);
            ulp = 2 powr (of_int e - 52)
        in sgn x * (of_int (round_even (\<bar>x\<bar> / ulp)) * ulp))"

text \<open>The operators \<^verbatim>\<open>+\<close>, \<^verbatim>\<open>-\<close>, \<^verbatim>\<open>*\<close> and \<^verbatim>\<open>/\<close> on prices.\<close>

definition js_add :: "real \<Rightarrow> real \<Rightarrow> real" where
  "js_add x y = double_round (x + y)"

definition js_sub :: "real \<Rightarrow> real \<Rightarrow> real" where
  "js_sub x y = double_round (x - y)"

definition js_mul :: "real \<Rightarrow> real \<Rightarrow> real" where
  "js_mul x y = double_round (x * y)"

definition js_div :: "real \<Rightarrow> real \<Rightarrow> real" where
  "js_div x y = double_round (x / y)"

section \<open>The schema: pre-save hook, instance and static methods\<close>

text \<open>The body of the \<^verbatim>\<open>forEach\<close> in the pre-save hook.\<close>

definition recompute :: "response \<Rightarrow> response" where
  "recompute x =
     (if discount x > 0
      then x\<lparr>finalPrice :=
             js_sub (totalPrice x) (js_div (js_mul (totalPrice x) (discount x)) 100)\<rparr>
      else x\<lparr>finalPrice := totalPrice x\<rparr>)"

definition pre_save :: "time \<Rightarrow> request \<Rightarrow> request" where
  "pre_save now r =
     (let r1 = (if status r = Open \<and> expiresAt r < now then r\<lparr>status := Expired\<rparr> else r)
      in r1\<lparr>responses := map recompute (responses r1)\<rparr>)"

text \<open>
  \<^verbatim>\<open>addResponse\<close> receives the response data already priced by the controller; the
  schema default \<^verbatim>\<open>isActive: true\<close> applies to the pushed subdocument. Its only caller,
  \<^verbatim>\<open>respondToRequest\<close>, loads the request without populating
  \<^verbatim>\<open>responses.pharmacy\<close>, so \<^verbatim>\<open>r.pharmacy.toString()\<close> is the text of the stored id
  and the comparison is equality of ids.
\<close>

definition addResponse ::
  "time \<Rightarrow> user_id \<Rightarrow> available_medicine list \<Rightarrow> real \<Rightarrow> real \<Rightarrow> real \<Rightarrow> request
     \<Rightarrow> error + request" where
  "addResponse now pharmacyId meds total_price disc final_price r =
     (case find (\<lambda>x. pharmacy x = pharmacyId) (responses r) of
        Some existingResponse \<Rightarrow> Inl DuplicateResponse
      | None \<Rightarrow>
          Inr (pre_save now
            (r\<lparr>responses := responses r @
                  [\<lparr>pharmacy = pharmacyId, availableMedicines = meds, totalPrice = total_price,
                    discount = disc, finalPrice = final_price, isActive = True\<rparr>],
               responseCount := responseCount r + 1\<rparr>)))"

text \<open>
  What \<^verbatim>\<open>toString()\<close> yields for \<^verbatim>\<open>r.pharmacy\<close>: the 24 hexadecimal digits of the
  id when the field holds the stored \<^verbatim>\<open>ObjectId\<close>, and the printed user document
  when the document was loaded with \<^verbatim>\<open>populate('responses.pharmacy')\<close>. The text of a
  document is never the text of an id.
\<close>

datatype id_text = ObjectIdText user_id | DocumentText user_id

definition pharmacy_toString :: "bool \<Rightarrow> response \<Rightarrow> id_text" where
  "pharmacy_toString populated x =
     (if populated then DocumentText (pharmacy x) else ObjectIdText (pharmacy x))"

text \<open>
  The schema method \<^verbatim>\<open>acceptPharmacy\<close>, on a document whose \<^verbatim>\<open>responses.pharmacy\<close>
  is populated or not. \<open>pharmacyId\<close> is \<open>None\<close> when the caller passes
  \<^verbatim>\<open>undefined\<close>: then \<^verbatim>\<open>pharmacyId.toString()\<close> throws in the callback of
  \<^verbatim>\<open>find\<close>, which runs when there is a response to look at.
\<close>

definition acceptPharmacy_method ::
  "bool \<Rightarrow> time \<Rightarrow> user_id option \<Rightarrow> request \<Rightarrow> error + request" where
  "acceptPharmacy_method populated now pharmacyId r =
     (case pharmacyId of
        None \<Rightarrow> if responses r = [] then Inl ResponseNotFound else Inl TypeError
      | Some p \<Rightarrow>
          (case find (\<lambda>x. pharmacy_toString populated x = ObjectIdText p) (responses r) of
             None \<Rightarrow> Inl ResponseNotFound
           | Some pharmacyResponse \<Rightarrow>
               Inr (pre_save now
                 (r\<lparr>status := Accepted,
                    acceptedPharmacy := Some p,
                    responses :=
                      map (\<lambda>x. if pharmacy_toString populated x \<noteq> ObjectIdText p
                                then x\<lparr>isActive := False\<rparr> else x)
                        (responses r)\<rparr>))))"

text \<open>The schema method \<^verbatim>\<open>addCommunication\<close>.\<close>

definition addCommunication_method :: "time \<Rightarrow> user_id \<Rightarrow> string \<Rightarrow> request \<Rightarrow> request" where
  "addCommunication_method now senderId msg r =
     pre_save now (r\<lparr>communication := communication r @ [(senderId, msg)]\<rparr>)"

text \<open>
  The query documents of the static methods \<^verbatim>\<open>getUrgentRequests\<close> and
  \<^verbatim>\<open>findNearbyRequests\<close>: the condition a stored request meets to be listed. The
  geospatial condition and the additional filters of the second are parameters; sorting
  and the limit are not modelled.
\<close>

definition getUrgentRequests_query :: "time \<Rightarrow> request \<Rightarrow> bool" where
  "getUrgentRequests_query now r \<longleftrightarrow>
     status r = Open \<and> (urgency r = Urgent \<or> urgency r = Emergency) \<and> expiresAt r > now"

definition findNearbyRequests_query ::
  "(request \<Rightarrow> bool) \<Rightarrow> (request \<Rightarrow> bool) \<Rightarrow> time \<Rightarrow> request \<Rightarrow> bool" where
  "findNearbyRequests_query near additionalFilters now r \<longleftrightarrow>
     status r = Open \<and> expiresAt r > now \<and> near r \<and> additionalFilters r"

section \<open>The controller\<close>

text \<open>
  Every handler notifies only when a socket handler was injected; \<open>sock\<close> is that test.
  \<^verbatim>\<open>MedicineRequest.create\<close> refuses a medicine without the required name or
  quantity; the handler catches the error and answers 500.
\<close>

definition createRequest ::
  "bool \<Rightarrow> time \<Rightarrow> user \<Rightarrow> medicine list \<Rightarrow> urgency \<Rightarrow> real \<Rightarrow> real \<Rightarrow> outcome" where
  "createRequest sock now u meds urg lat lon =
     (if role u \<noteq> patient_role \<and> role u \<noteq> user_role then Inl Unauthorized
      else if list_ex (\<lambda>m. name m = [] \<or> quantity m = None) meds
      then Inl SchemaValidationError
      else
        let r = pre_save now
              \<lparr>patient = uid u, medicines = meds, urgency = urg, coordinates = (lon, lat),
               status = Open, responses = [], acceptedPharmacy = None, communication = [],
               request_notes = [], expiresAt = now + 24 * 60 * 60 * 1000, responseCount = 0\<rparr>
        in Inr (r,
             if sock
             then (NearbyPharmacies lat lon, new_medicine_request) #
                  (if urg = Urgent \<or> urg = Emergency
                   then [(AllPharmacies, urgent_medicine_request)] else [])
             else []))"

text \<open>The price loop of \<^verbatim>\<open>respondToRequest\<close>: \<^verbatim>\<open>med.available && med.price\<close>.\<close>

fun sum_prices :: "available_medicine list \<Rightarrow> real \<Rightarrow> real" where
  "sum_prices [] acc = acc"
| "sum_prices (med # meds) acc =
     sum_prices meds
       (case price med of
          None \<Rightarrow> acc
        | Some p \<Rightarrow> if available med \<and> p \<noteq> 0 then js_add acc p else acc)"

definition respondToRequest ::
  "bool \<Rightarrow> time \<Rightarrow> user \<Rightarrow> available_medicine list \<Rightarrow> request \<Rightarrow> outcome" where
  "respondToRequest sock now u meds r =
     (if role u \<noteq> pharmacy_role then Inl Unauthorized
      else if status r \<noteq> Open then Inl RequestClosed
      else
        let total_price = sum_prices meds 0;
            disc = (if total_price > 1000 then 5 else 0);
            final_price = js_sub total_price (js_div (js_mul total_price disc) 100)
        in case addResponse now (uid u) meds total_price disc final_price r of
             Inl e \<Rightarrow> Inl e
           | Inr r' \<Rightarrow>
               Inr (r', if sock then [(ToUser (patient r'), pharmacy_responded)] else []))"

text \<open>
  \<^verbatim>\<open>getRequestResponses\<close>, the read of one request: the document is returned as stored
  (the distance added to each response is left out).
\<close>

definition getRequestResponses :: "user \<Rightarrow> request \<Rightarrow> error + request" where
  "getRequestResponses u r = (if patient r \<noteq> uid u then Inl Unauthorized else Inr r)"

text \<open>
  The controller's \<^verbatim>\<open>acceptPharmacy\<close>. The request is loaded with
  \<^verbatim>\<open>populate('responses.pharmacy')\<close>, and the schema method runs on that populated
  document. \<open>pharmacyId\<close> is what the handler reads from \<^verbatim>\<open>req.params.pharmacyId\<close>:
  \<open>None\<close> when the route has no such parameter, as the registered route
  \<^verbatim>\<open>/:requestId/accept\<close>. The notifications are computed after the schema method has
  mutated and saved the document; \<^verbatim>\<open>r.pharmacy._id\<close> is the id of the populated user.
\<close>

definition acceptPharmacy ::
  "bool \<Rightarrow> time \<Rightarrow> user \<Rightarrow> user_id option \<Rightarrow> request \<Rightarrow> outcome" where
  "acceptPharmacy sock now u pharmacyId r =
     (if patient r \<noteq> uid u then Inl Unauthorized
      else if status r \<noteq> Open then Inl RequestClosed
      else case acceptPharmacy_method True now pharmacyId r of
             Inl e \<Rightarrow> Inl e
           | Inr r' \<Rightarrow>
               Inr (r',
                 if sock
                 then (case pharmacyId of
                         None \<Rightarrow> []
                       | Some p \<Rightarrow>
                           (ToUser p, request_accepted) #
                           map (\<lambda>x. (ToUser (pharmacy x), request_closed))
                             (filter (\<lambda>x. pharmacy x \<noteq> p \<and> isActive x) (responses r')))
                 else []))"

definition updateRequestStatus ::
  "bool \<Rightarrow> time \<Rightarrow> user \<Rightarrow> req_status \<Rightarrow> string \<Rightarrow> request \<Rightarrow> outcome" where
  "updateRequestStatus sock now u new nts r =
     (let isPatient = (patient r = uid u);
          isAcceptedPharmacy = (acceptedPharmacy r = Some (uid u))
      in if \<not> isPatient \<and> \<not> isAcceptedPharmacy then Inl Unauthorized
         else
           let r' = pre_save now
                 ((if nts \<noteq> [] then r\<lparr>request_notes := nts\<rparr> else r)\<lparr>status := new\<rparr>);
               targetUserId = (if isPatient then acceptedPharmacy r' else Some (patient r'))
           in Inr (r',
                if sock
                then (case targetUserId of
                        Some t \<Rightarrow> [(ToUser t, request_status_changed)]
                      | None \<Rightarrow> [])
                else []))"

definition addCommunication :: "bool \<Rightarrow> time \<Rightarrow> user \<Rightarrow> string \<Rightarrow> request \<Rightarrow> outcome" where
  "addCommunication sock now u msg r =
     (let isPatient = (patient r = uid u);
          isAcceptedPharmacy = (acceptedPharmacy r = Some (uid u))
      in if \<not> isPatient \<and> \<not> isAcceptedPharmacy then Inl Unauthorized
         else
           let r' = addCommunication_method now (uid u) msg r;
               targetUserId = (if isPatient then acceptedPharmacy r' else Some (patient r'))
           in Inr (r',
                if sock
                then (case targetUserId of
                        Some t \<Rightarrow> [(ToUser t, new_message)]
                      | None \<Rightarrow> [])
                else []))"

text \<open>
  \<^verbatim>\<open>updatePrescription\<close> replaces the prescription reference (not part of this model)
  and saves; the active responders and the accepted pharmacy are notified.
\<close>

definition updatePrescription :: "bool \<Rightarrow> time \<Rightarrow> user \<Rightarrow> request \<Rightarrow> outcome" where
  "updatePrescription sock now u r =
     (if patient r \<noteq> uid u then Inl Unauthorized
      else
        let r' = pre_save now r
        in Inr (r',
             if sock
             then map (\<lambda>x. (ToUser (pharmacy x), prescription_updated))
                    (filter isActive (responses r')) @
                  (case acceptedPharmacy r' of
                     Some p \<Rightarrow> [(ToUser p, prescription_updated)]
                   | None \<Rightarrow> [])
             else []))"

section \<open>Distances\<close>

text \<open>
  The distance helper works on coordinates, where the primitives are the platform's:
  the four operators, \<^verbatim>\<open>Math.sin\<close>, \<^verbatim>\<open>Math.cos\<close>, \<^verbatim>\<open>Math.sqrt\<close>,
  \<^verbatim>\<open>Math.atan2\<close>, \<^verbatim>\<open>Math.round\<close> and \<^verbatim>\<open>Math.PI\<close>. They are parameters of the
  model: \<open>'d\<close> is the type of the binary64 values other than \<open>NaN\<close>, a JavaScript
  number is a \<open>'d option\<close> with \<open>None\<close> for \<open>NaN\<close>, and a primitive maps values
  that are not \<open>NaN\<close> to a number. \<open>number M x\<close> is the binary64 value of the literal
  or stored number \<open>x\<close>.
\<close>

record 'd math =
  number :: "real \<Rightarrow> 'd"
  add_op :: "'d \<Rightarrow> 'd \<Rightarrow> 'd option"
  sub_op :: "'d \<Rightarrow> 'd \<Rightarrow> 'd option"
  mul_op :: "'d \<Rightarrow> 'd \<Rightarrow> 'd option"
  div_op :: "'d \<Rightarrow> 'd \<Rightarrow> 'd option"
  Math_sin :: "'d \<Rightarrow> 'd option"
  Math_cos :: "'d \<Rightarrow> 'd option"
  Math_sqrt :: "'d \<Rightarrow> 'd option"
  Math_atan2 :: "'d \<Rightarrow> 'd \<Rightarrow> 'd option"
  Math_round :: "'d \<Rightarrow> 'd option"
  Math_PI :: 'd

text \<open>Every one of these primitives yields \<open>NaN\<close> when an operand is \<open>NaN\<close>.\<close>

definition unary :: "('d \<Rightarrow> 'd option) \<Rightarrow> 'd option \<Rightarrow> 'd option" where
  "unary f a = (case a of None \<Rightarrow> None | Some x \<Rightarrow> f x)"

definition binary :: "('d \<Rightarrow> 'd \<Rightarrow> 'd option) \<Rightarrow> 'd option \<Rightarrow> 'd option \<Rightarrow> 'd option" where
  "binary f a b =
     (case a of
        None \<Rightarrow> None
      | Some x \<Rightarrow> (case b of None \<Rightarrow> None | Some y \<Rightarrow> f x y))"

text \<open>
  A value handed to the helper is a number or \<^verbatim>\<open>undefined\<close>; an arithmetic operator
  converts \<^verbatim>\<open>undefined\<close> to \<open>NaN\<close>.
\<close>

datatype 'd js_value = Undefined | Number "'d option"

definition ToNumber :: "'d js_value \<Rightarrow> 'd option" where
  "ToNumber v = (case v of Undefined \<Rightarrow> None | Number n \<Rightarrow> n)"

definition calculateDistance ::
  "'d math \<Rightarrow> 'd js_value \<Rightarrow> 'd js_value \<Rightarrow> 'd js_value \<Rightarrow> 'd js_value \<Rightarrow> 'd option" where
  "calculateDistance M lat1 lon1 lat2 lon2 =
     (let lit = (\<lambda>x. Some (number M x));
          PI = Some (Math_PI M);
          addN = binary (add_op M); subN = binary (sub_op M);
          mulN = binary (mul_op M); divN = binary (div_op M);
          sinN = unary (Math_sin M); cosN = unary (Math_cos M); sqrtN = unary (Math_sqrt M);
          R = lit 6371;
          dLat = divN (mulN (subN (ToNumber lat2) (ToNumber lat1)) PI) (lit 180);
          dLon = divN (mulN (subN (ToNumber lon2) (ToNumber lon1)) PI) (lit 180);
          a = addN (mulN (sinN (divN dLat (lit 2))) (sinN (divN dLat (lit 2))))
                (mulN (mulN (mulN (cosN (divN (mulN (ToNumber lat1) PI) (lit 180)))
                                  (cosN (divN (mulN (ToNumber lat2) PI) (lit 180))))
                            (sinN (divN dLon (lit 2))))
                      (sinN (divN dLon (lit 2))));
          c = mulN (lit 2) (binary (Math_atan2 M) (sqrtN a) (sqrtN (subN (lit 1) a)))
      in mulN R c)"

text \<open>
  Reading a property of an array of numbers: an index in range gives the element, the
  name \<^verbatim>\<open>length\<close> the length, and any other name \<^verbatim>\<open>undefined\<close>.
\<close>

datatype property = Index nat | Named string

definition array_get :: "'d math \<Rightarrow> 'd option list \<Rightarrow> property \<Rightarrow> 'd js_value" where
  "array_get M xs p =
     (case p of
        Index i \<Rightarrow> if i < length xs then Number (xs ! i) else Undefined
      | Named k \<Rightarrow>
          if k = ''length'' then Number (Some (number M (real (length xs)))) else Undefined)"

text \<open>
  The distances of \<^verbatim>\<open>getNearbyRequests\<close>. \<open>location_coordinates\<close> is the pharmacy's
  \<^verbatim>\<open>pharmacyDetails.location.coordinates\<close>, which the user schema declares as the
  array \<^verbatim>\<open>[longitude, latitude]\<close>; the handler reads \<^verbatim>\<open>longitude\<close> and
  \<^verbatim>\<open>latitude\<close> from it by name. A request stores
  \<^verbatim>\<open>coordinates = [longitude, latitude]\<close>, read by index.
\<close>

definition requestsWithDistance ::
  "'d math \<Rightarrow> 'd option list \<Rightarrow> request list \<Rightarrow> (request \<times> 'd option) list" where
  "requestsWithDistance M location_coordinates paginatedRequests =
     (let longitude = array_get M location_coordinates (Named ''longitude'');
          latitude = array_get M location_coordinates (Named ''latitude'')
      in map (\<lambda>request.
                let distance = calculateDistance M latitude longitude
                      (Number (Some (number M (snd (coordinates request)))))
                      (Number (Some (number M (fst (coordinates request)))))
                in (request,
                    binary (div_op M)
                      (unary (Math_round M)
                         (binary (mul_op M) distance (Some (number M 100))))
                      (Some (number M 100))))
           paginatedRequests)"

section \<open>The validation middleware\<close>

text \<open>
  A number of the request body may be absent (\<open>None\<close>); JavaScript treats an absent
  number and the number 0 alike as false.
\<close>

definition truthy :: "real option \<Rightarrow> bool" where
  "truthy v = (case v of None \<Rightarrow> False | Some x \<Rightarrow> x \<noteq> 0)"

definition invalid_medicine :: "medicine \<Rightarrow> bool" where
  "invalid_medicine m =
     (name m = [] \<or> \<not> truthy (quantity m) \<or>
      (case quantity m of None \<Rightarrow> False | Some q \<Rightarrow> q \<le> 0))"

text \<open>
  \<open>meds = None\<close> stands for a \<^verbatim>\<open>medicines\<close> field that is absent or not an array,
  \<open>loc = None\<close> for an absent \<^verbatim>\<open>location\<close>.
\<close>

definition validateMedicineRequest :: "medicine list option \<Rightarrow> location option \<Rightarrow> error + unit" where
  "validateMedicineRequest meds loc =
     (case meds of
        None \<Rightarrow> Inl (ValidationError ''At least one medicine is required'')
      | Some ms \<Rightarrow>
          if ms = [] then Inl (ValidationError ''At least one medicine is required'')
          else if list_ex invalid_medicine ms
          then Inl (ValidationError ''Each medicine must have a name and valid quantity'')
          else (case loc of
                  None \<Rightarrow> Inl (ValidationError ''Location (latitude and longitude) is required'')
                | Some l \<Rightarrow>
                    if \<not> truthy (latitude l) \<or> \<not> truthy (longitude l)
                    then Inl (ValidationError ''Location (latitude and longitude) is required'')
                    else Inr ()))"

section \<open>Sequences of operations on one request\<close>

text \<open>
  What the store holds after an operation: the saved document, or the old one when the
  operation failed.
\<close>

definition stored :: "request \<Rightarrow> outcome \<Rightarrow> request" where
  "stored r res = (case res of Inl e \<Rightarrow> r | Inr (r', ns) \<Rightarrow> r')"

datatype operation =
    Respond time user "available_medicine list"
  | Accept time user "user_id option"
  | UpdateStatus time user req_status string
  | AddCommunication time user string
  | UpdatePrescription time user

fun step :: "bool \<Rightarrow> request \<Rightarrow> operation \<Rightarrow> request" where
  "step sock r (Respond now u meds) = stored r (respondToRequest sock now u meds r)"
| "step sock r (Accept now u pharmacyId) = stored r (acceptPharmacy sock now u pharmacyId r)"
| "step sock r (UpdateStatus now u new nts) =
     stored r (updateRequestStatus sock now u new nts r)"
| "step sock r (AddCommunication now u msg) = stored r (addCommunication sock now u msg r)"
| "step sock r (UpdatePrescription now u) = stored r (updatePrescription sock now u r)"

definition run :: "bool \<Rightarrow> request \<Rightarrow> operation list \<Rightarrow> request" where
  "run sock r ops = foldl (step sock) r ops"

text \<open>The parties and offers of the specification's scenarios.\<close>

definition patient0 :: user where
  "patient0 = \<lparr>uid = 10, role = patient_role\<rparr>"

definition pharmacyA :: user where
  "pharmacyA = \<lparr>uid = 1, role = pharmacy_role\<rparr>"

definition pharmacyB :: user where
  "pharmacyB = \<lparr>uid = 2, role = pharmacy_role\<rparr>"

definition offerA :: "available_medicine list" where
  "offerA = [\<lparr>medicineName = ''Paracetamol'', available = True, price = Some 1200\<rparr>]"

definition offerB :: "available_medicine list" where
  "offerB = [\<lparr>medicineName = ''Paracetamol'', available = True, price = Some 900\<rparr>]"

text \<open>The request of scenario 1, created at time 0.\<close>

definition request0 :: request where
  "request0 =
     \<lparr>patient = 10, medicines = [\<lparr>name = ''Paracetamol'', quantity = Some 2\<rparr>],
      urgency = Normal, coordinates = (7657 / 100, 3077 / 100), status = Open, responses = [],
      acceptedPharmacy = None, communication = [], request_notes = [],
      expiresAt = 86400000, responseCount = 0\<rparr>"

text \<open>The same request after both pharmacies have answered (scenario 2).\<close>

definition request2 :: request where
  "request2 =
     \<lparr>patient = 10, medicines = [\<lparr>name = ''Paracetamol'', quantity = Some 2\<rparr>],
      urgency = Normal, coordinates = (7657 / 100, 3077 / 100), status = Open,
      responses =
        [\<lparr>pharmacy = 1, availableMedicines = offerA, totalPrice = 1200, discount = 5,
          finalPrice = 1140, isActive = True\<rparr>,
         \<lparr>pharmacy = 2, availableMedicines = offerB, totalPrice = 900, discount = 0,
          finalPrice = 900, isActive = True\<rparr>],
      acceptedPharmacy = None, communication = [], request_notes = [],
      expiresAt = 86400000, responseCount = 2\<rparr>"

section \<open>Invariants\<close>

text \<open>
  The discount rule of one response, and the final price that a save stores for it.
\<close>

definition discount_ok :: "response \<Rightarrow> bool" where
  "discount_ok x \<longleftrightarrow> discount x = (if totalPrice x > 1000 then 5 else 0)"

definition price_ok :: "response \<Rightarrow> bool" where
  "price_ok x \<longleftrightarrow>
     discount_ok x \<and>
     finalPrice x =
       (if totalPrice x > 1000
        then js_sub (totalPrice x) (js_div (js_mul (totalPrice x) 5) 100)
        else totalPrice x)"

text \<open>The operations that call \<^verbatim>\<open>acceptPharmacy\<close>.\<close>

fun is_accept :: "operation \<Rightarrow> bool" where
  "is_accept (Accept now u pharmacyId) = True"
| "is_accept _ = False"

section \<open>Rounding of numbers\<close>

lemma round_even_of_int [simp]: "round_even (of_int k) = k"
  by (simp add: round_even_def)

lemma double_round_eval:
  assumes "0 < x" and "2 powr (of_int e) \<le> x" and "x < 2 powr (of_int e + 1)" and "- 1022 \<le> e"
  shows "double_round x =
         of_int (round_even (x / 2 powr (of_int e - 52))) * 2 powr (of_int e - 52)"
proof -
  from assms(1-3) have "\<lfloor>log 2 x\<rfloor> = e"
    by (simp add: floor_log_eq_powr_iff)
  with assms(1,4) show ?thesis
    by (simp add: double_round_def Let_def max_def)
qed

lemma double_round_exact:
  assumes "x \<noteq> 0"
    and "\<bar>x\<bar> / 2 powr (of_int (max \<lfloor>log 2 \<bar>x\<bar>\<rfloor> (- 1022)) - 52) = of_int k"
  shows "double_round x = x"
proof -
  have "sgn x * \<bar>x\<bar> = x"
    by (simp add: sgn_real_def)
  moreover have "of_int k * 2 powr (of_int (max \<lfloor>log 2 \<bar>x\<bar>\<rfloor> (- 1022)) - 52) = \<bar>x\<bar>"
    using assms(2) [symmetric] by simp
  ultimately show ?thesis
    using assms by (simp add: double_round_def Let_def)
qed

lemma double_round_int:
  assumes "\<bar>n\<bar> < 2 ^ 53"
  shows "double_round (of_int n) = of_int n"
proof (cases "n = 0")
  case True
  then show ?thesis by (simp add: double_round_def)
next
  case False
  define x :: real where "x = \<bar>of_int n\<bar>"
  from False have x1: "1 \<le> x"
    by (simp add: x_def)
  from assms have x2: "x < 2 ^ 53"
    unfolding x_def by (metis of_int_abs of_int_less_numeral_power_cancel_iff)
  define e where "e = \<lfloor>log 2 x\<rfloor>"
  from x1 have e0: "0 \<le> e"
    by (simp add: e_def)
  have "log 2 x < 53"
    using x1 x2 by (simp add: log_less_iff) 
  then have e52: "e \<le> 52"
    unfolding e_def by linarith
  define m where "m = nat (52 - e)"
  have u: "2 powr (of_int (max e (- 1022)) - 52) = (1 :: real) / 2 ^ m"
  proof -
    from e0 have "max e (- 1022) = e" by simp
    moreover from e52 have "real_of_int e - 52 = - real m"
      by (simp add: m_def)
    ultimately have "2 powr (of_int (max e (- 1022)) - 52) = (2 :: real) powr (- real m)"
      by simp
    also have "\<dots> = 1 / 2 ^ m"
      by (simp add: powr_minus powr_realpow inverse_eq_divide)
    finally show ?thesis .
  qed
  have "\<bar>of_int n :: real\<bar> / 2 powr (of_int (max \<lfloor>log 2 \<bar>of_int n\<bar>\<rfloor> (- 1022)) - 52) =
      of_int (\<bar>n\<bar> * 2 ^ m)"
    using u by (simp add: x_def e_def)
  moreover from False have "(of_int n :: real) \<noteq> 0" by simp
  ultimately show ?thesis
    by (rule double_round_exact [rotated])
qed

lemma double_round_numeral [simp]:
  "(numeral w :: int) < 2 ^ 53 \<Longrightarrow> double_round (numeral w) = numeral w"
  using double_round_int [of "numeral w"] by simp

lemma double_round_0 [simp]: "double_round 0 = 0"
  by (simp add: double_round_def)

section \<open>Scenarios\<close>

lemma scenario_create:
  "createRequest True 0 patient0 [\<lparr>name = ''Paracetamol'', quantity = Some 2\<rparr>] Normal
     (3077 / 100) (7657 / 100) =
   Inr (request0, [(NearbyPharmacies (3077 / 100) (7657 / 100), new_medicine_request)])"
  by (simp add: createRequest_def request0_def patient0_def pre_save_def)

lemma scenario_two_offers:
  "run True request0 [Respond 5 pharmacyA offerA, Respond 6 pharmacyB offerB] = request2"
  by (simp add: run_def stored_def respondToRequest_def addResponse_def pre_save_def
      recompute_def js_add_def js_sub_def js_mul_def js_div_def request0_def request2_def
      pharmacyA_def pharmacyB_def offerA_def offerB_def)

section \<open>Responses to a closed request\<close>

text \<open>
  Claim C4. A pharmacy's \<^verbatim>\<open>respondToRequest\<close> on a request whose status is not
  \<open>Open\<close> fails with \<open>RequestClosed\<close>; the stored request, and so its list of
  responses, is unchanged; and no caller at all gets a response accepted on such a
  request.
\<close>

theorem respondToRequest_closed:
  assumes "role u = pharmacy_role" and "status r \<noteq> Open"
  shows "respondToRequest sock now u meds r = Inl RequestClosed \<and>
         stored r (respondToRequest sock now u meds r) = r \<and>
         (\<forall>v t m. \<nexists>res. respondToRequest sock t v m r = Inr res)"
  using assms by (simp add: respondToRequest_def stored_def)

theorem respondToRequest_closed_witness:
  "role pharmacyB = pharmacy_role \<and> status (request2\<lparr>status := Accepted\<rparr>) \<noteq> Open \<and>
   respondToRequest True 7 pharmacyB offerB (request2\<lparr>status := Accepted\<rparr>) =
     Inl RequestClosed \<and>
   stored (request2\<lparr>status := Accepted\<rparr>)
     (respondToRequest True 7 pharmacyB offerB (request2\<lparr>status := Accepted\<rparr>)) =
     request2\<lparr>status := Accepted\<rparr>"
proof -
  have h1: "role pharmacyB = pharmacy_role"
    by (simp add: pharmacyB_def)
  have h2: "status (request2\<lparr>status := Accepted\<rparr>) \<noteq> Open"
    by simp
  from respondToRequest_closed [OF h1 h2, of True 7 offerB] h1 h2 show ?thesis
    by blast
qed

section \<open>Accepting a response\<close>

lemma find_pharmacy_Some:
  assumes "p \<in> pharmacy ` set xs"
  shows "\<exists>x. find (\<lambda>x. pharmacy x = p) xs = Some x"
  using assms by (cases "find (\<lambda>x. pharmacy x = p) xs") (auto simp: find_None_iff)

lemma find_pharmacy_None:
  assumes "p \<notin> pharmacy ` set xs"
  shows "find (\<lambda>x. pharmacy x = p) xs = None"
  using assms by (force simp: find_None_iff)

text \<open>
  On a populated document no response is found: the text of a populated pharmacy is not
  the text of an id. The schema method fails and nothing is saved.
\<close>

lemma acceptPharmacy_method_populated:
  "acceptPharmacy_method True now pharmacyId r =
     (if pharmacyId = None \<and> responses r \<noteq> [] then Inl TypeError else Inl ResponseNotFound)"
proof -
  have "find (\<lambda>x. pharmacy_toString True x = ObjectIdText p) (responses r) = None" for p
    by (simp add: find_None_iff pharmacy_toString_def)
  then show ?thesis
    by (simp add: acceptPharmacy_method_def split: option.splits)
qed

text \<open>So the controller's \<^verbatim>\<open>acceptPharmacy\<close> never succeeds and never changes the store.\<close>

lemma acceptPharmacy_fails:
  "(\<nexists>res. acceptPharmacy sock now u pharmacyId r = Inr res) \<and>
   stored r (acceptPharmacy sock now u pharmacyId r) = r"
  by (simp add: acceptPharmacy_def acceptPharmacy_method_populated stored_def)

text \<open>
  On a document that holds the stored ids the schema method does find the response: the
  status becomes \<open>Accepted\<close>, the pharmacy is recorded, no response is added or removed,
  and every response of another pharmacy is inactive.
\<close>

lemma acceptPharmacy_method_unpopulated:
  assumes "acceptPharmacy_method False now (Some p) r = Inr r'"
  shows "status r' = Accepted \<and> acceptedPharmacy r' = Some p \<and>
         map pharmacy (responses r') = map pharmacy (responses r) \<and>
         (\<forall>x \<in> set (responses r'). pharmacy x \<noteq> p \<longrightarrow> \<not> isActive x)"
  using assms
  by (auto simp add: acceptPharmacy_method_def pharmacy_toString_def pre_save_def recompute_def
      o_def split: if_splits option.splits)

text \<open>
  Claim C1, evaluated on scenario 3. The request is open, it belongs to the patient and
  both responses are active. The patient accepts pharmacy 1: the handler answers with the
  error "Pharmacy response not found", the stored request is unchanged (still open, no
  accepted pharmacy, both responses active) and nobody is notified. With the pharmacy id
  that the registered route supplies (none), the answer is the caught \<open>TypeError\<close>.
\<close>

theorem acceptPharmacy_scenario3:
  "status request2 = Open \<and> patient request2 = uid patient0 \<and>
   map (\<lambda>x. (pharmacy x, isActive x)) (responses request2) = [(1, True), (2, True)] \<and>
   acceptPharmacy True 7 patient0 (Some 1) request2 = Inl ResponseNotFound \<and>
   stored request2 (acceptPharmacy True 7 patient0 (Some 1) request2) = request2 \<and>
   acceptPharmacy True 7 patient0 None request2 = Inl TypeError"
  by (simp add: acceptPharmacy_def acceptPharmacy_method_populated stored_def request2_def
      patient0_def)

text \<open>
  Claim C5, evaluated on scenario 3. The first call of the patient for pharmacy 1 does
  not succeed: it answers "Pharmacy response not found" and leaves the request open. The
  second call with the same arguments fails in the same way, not with \<open>RequestClosed\<close>.
\<close>

theorem acceptPharmacy_twice:
  "acceptPharmacy True 7 patient0 (Some 1) request2 = Inl ResponseNotFound \<and>
   status (stored request2 (acceptPharmacy True 7 patient0 (Some 1) request2)) = Open \<and>
   acceptPharmacy True 8 patient0 (Some 1)
     (stored request2 (acceptPharmacy True 7 patient0 (Some 1) request2)) =
     Inl ResponseNotFound"
  by (simp add: acceptPharmacy_def acceptPharmacy_method_populated stored_def request2_def
      patient0_def)

section \<open>Expiry\<close>

text \<open>
  Claim C7 fails on the request of scenario 1 read and answered one millisecond after
  its expiry time: the stored status is \<open>Open\<close>, the read returns the request with
  status \<open>Open\<close>, and the response of pharmacy 1 is accepted and appended; the save that
  stores it is what turns the status to \<open>Expired\<close>.
\<close>

theorem expired_request_counterexample:
  "expiresAt request0 < 86400001 \<and> status request0 = Open \<and>
   getRequestResponses patient0 request0 = Inr request0 \<and>
   respondToRequest True 86400001 pharmacyA offerA request0 =
     Inr (request0\<lparr>status := Expired,
            responses := [\<lparr>pharmacy = 1, availableMedicines = offerA, totalPrice = 1200,
              discount = 5, finalPrice = 1140, isActive = True\<rparr>],
            responseCount := 1\<rparr>,
          [(ToUser 10, pharmacy_responded)])"
  by (simp add: getRequestResponses_def respondToRequest_def addResponse_def pre_save_def
      recompute_def js_add_def js_sub_def js_mul_def js_div_def request0_def patient0_def
      pharmacyA_def offerA_def)

text \<open>
  Claim C7 as amended. Let a request be stored as \<open>Open\<close> with its expiry time in the
  past. A read of the request shows the stored status \<open>Open\<close>; the urgent and the nearby
  listing leave it out. The pre-save hook turns the status to \<open>Expired\<close>, so a save that
  does not itself assign the status, such as the one of a prescription update by the
  patient, stores the request as expired. Once that is stored, a pharmacy's response fails
  with \<open>RequestClosed\<close> and the stored request is unchanged.
\<close>

theorem expired_request_lazy:
  assumes "status r = Open" and "expiresAt r < now"
  shows "(\<forall>v r1. getRequestResponses v r = Inr r1 \<longrightarrow> status r1 = Open) \<and>
    \<not> getUrgentRequests_query now r \<and>
    \<not> findNearbyRequests_query near additionalFilters now r \<and>
    status (pre_save now r) = Expired \<and>
    (\<forall>v. patient r = uid v \<longrightarrow>
       stored r (updatePrescription sock now v r) = pre_save now r) \<and>
    (\<forall>v t m. role v = pharmacy_role \<longrightarrow>
       respondToRequest sock t v m (pre_save now r) = Inl RequestClosed \<and>
       stored (pre_save now r) (respondToRequest sock t v m (pre_save now r)) =
         pre_save now r)"
proof -
  from assms have e: "status (pre_save now r) = Expired"
    by (simp add: pre_save_def)
  then have "respondToRequest sock t v m (pre_save now r) = Inl RequestClosed"
    if "role v = pharmacy_role" for v t m
    using that by (simp add: respondToRequest_def)
  moreover have "\<forall>v r1. getRequestResponses v r = Inr r1 \<longrightarrow> status r1 = Open"
    using assms(1) by (auto simp add: getRequestResponses_def split: if_splits)
  moreover have "\<not> getUrgentRequests_query now r"
    "\<not> findNearbyRequests_query near additionalFilters now r"
    using assms(2) by (simp_all add: getUrgentRequests_query_def findNearbyRequests_query_def)
  moreover have "\<forall>v. patient r = uid v \<longrightarrow>
       stored r (updatePrescription sock now v r) = pre_save now r"
    by (simp add: updatePrescription_def stored_def Let_def)
  ultimately show ?thesis
    using e by (simp add: stored_def)
qed

theorem expired_request_lazy_witness:
  "status request0 = Open \<and> expiresAt request0 < 86400001 \<and>
   patient request0 = uid patient0 \<and> role pharmacyA = pharmacy_role \<and>
   status (pre_save 86400001 request0) = Expired \<and>
   stored request0 (updatePrescription True 86400001 patient0 request0) =
     pre_save 86400001 request0 \<and>
   respondToRequest True 86400002 pharmacyA offerA (pre_save 86400001 request0) =
     Inl RequestClosed"
proof -
  have h1: "status request0 = Open"
    by (simp add: request0_def)
  have h2: "expiresAt request0 < 86400001"
    by (simp add: request0_def)
  have h3: "patient request0 = uid patient0"
    by (simp add: request0_def patient0_def)
  have h4: "role pharmacyA = pharmacy_role"
    by (simp add: pharmacyA_def)
  from expired_request_lazy [OF h1 h2, where sock = True] h1 h2 h3 h4 show ?thesis
    by blast
qed

section \<open>Status updates\<close>

text \<open>
  Claim C8 fails: the patient moves a completed request back to \<open>Open\<close>. The edge
  completed to open is not one of the allowed edges, the call does not return
  \<open>InvalidTransition\<close>, and the stored status changes.
\<close>

theorem updateRequestStatus_counterexample:
  "updateRequestStatus True 7 patient0 Open [] (request2\<lparr>status := Completed\<rparr>) =
     Inr (request2, []) \<and>
   status (stored (request2\<lparr>status := Completed\<rparr>)
     (updateRequestStatus True 7 patient0 Open [] (request2\<lparr>status := Completed\<rparr>))) = Open"
  by (simp add: updateRequestStatus_def stored_def pre_save_def recompute_def js_sub_def
      js_mul_def js_div_def request2_def patient0_def)

text \<open>
  Claim C8 as amended. A status update by the owning patient or by the recorded accepted
  pharmacy is not validated against any edge: for every current and every requested
  status the call succeeds and stores the requested status (the pre-save hook turns a
  requested \<open>Open\<close> into \<open>Expired\<close> when the expiry time has passed), and
  \<open>InvalidTransition\<close> is never returned.
\<close>

theorem updateRequestStatus_unvalidated:
  assumes "patient r = uid u \<or> acceptedPharmacy r = Some (uid u)"
  shows "(\<exists>r' ns. updateRequestStatus sock now u new nts r = Inr (r', ns) \<and>
            status r' = (if new = Open \<and> expiresAt r < now then Expired else new)) \<and>
         updateRequestStatus sock now u new nts r \<noteq> Inl InvalidTransition"
  using assms by (auto simp add: updateRequestStatus_def pre_save_def Let_def)

theorem updateRequestStatus_unvalidated_witness:
  "(patient (request2\<lparr>status := Ready, acceptedPharmacy := Some 1\<rparr>) = uid pharmacyA \<or>
    acceptedPharmacy (request2\<lparr>status := Ready, acceptedPharmacy := Some 1\<rparr>) =
      Some (uid pharmacyA)) \<and>
   (\<exists>r' ns. updateRequestStatus True 7 pharmacyA Accepted []
        (request2\<lparr>status := Ready, acceptedPharmacy := Some 1\<rparr>) = Inr (r', ns) \<and>
      status r' = Accepted)"
proof -
  have h: "patient (request2\<lparr>status := Ready, acceptedPharmacy := Some 1\<rparr>) = uid pharmacyA \<or>
      acceptedPharmacy (request2\<lparr>status := Ready, acceptedPharmacy := Some 1\<rparr>) =
        Some (uid pharmacyA)"
    by (simp add: pharmacyA_def)
  from updateRequestStatus_unvalidated [OF h, of True 7 Accepted "[]"] h show ?thesis
    by simp
qed

section \<open>Validation of a new request\<close>

text \<open>
  Claim C10. A request body whose location has latitude 0 or longitude 0 never passes
  \<^verbatim>\<open>validateMedicineRequest\<close>: the middleware answers with a validation error, and
  when the medicines are valid the error is the one for a missing location, although the
  coordinate is present.
\<close>

theorem validateMedicineRequest_zero_coordinate:
  assumes "latitude l = Some 0 \<or> longitude l = Some 0"
  shows "(\<exists>m. validateMedicineRequest meds (Some l) = Inl (ValidationError m)) \<and>
         (\<forall>ms. meds = Some ms \<and> ms \<noteq> [] \<and> \<not> list_ex invalid_medicine ms \<longrightarrow>
            validateMedicineRequest meds (Some l) =
              Inl (ValidationError ''Location (latitude and longitude) is required''))"
  using assms
  by (auto simp add: validateMedicineRequest_def truthy_def split: option.splits)

theorem validateMedicineRequest_zero_coordinate_witness:
  "(latitude \<lparr>latitude = Some 0, longitude = Some (7657 / 100)\<rparr> = Some 0 \<or>
    longitude \<lparr>latitude = Some 0, longitude = Some (7657 / 100)\<rparr> = Some 0) \<and>
   validateMedicineRequest (Some [\<lparr>name = ''Paracetamol'', quantity = Some 2\<rparr>])
     (Some \<lparr>latitude = Some 0, longitude = Some (7657 / 100)\<rparr>) =
     Inl (ValidationError ''Location (latitude and longitude) is required'')"
proof -
  have h: "latitude \<lparr>latitude = Some 0, longitude = Some (7657 / 100)\<rparr> = Some 0 \<or>
      longitude \<lparr>latitude = Some 0, longitude = Some (7657 / 100)\<rparr> = Some 0"
    by simp
  have v: "[\<lparr>name = ''Paracetamol'', quantity = Some 2\<rparr>] \<noteq> [] \<and>
      \<not> list_ex invalid_medicine [\<lparr>name = ''Paracetamol'', quantity = Some (2::real)\<rparr>]"
    by (simp add: invalid_medicine_def truthy_def)
  from validateMedicineRequest_zero_coordinate
    [OF h, of "Some [\<lparr>name = ''Paracetamol'', quantity = Some 2\<rparr>]"] h v
  show ?thesis
    by blast
qed

section \<open>What the operations store\<close>

text \<open>The pre-save hook changes only the status and the final prices.\<close>

lemma pre_save_pharmacy [simp]:
  "map pharmacy (responses (pre_save now r)) = map pharmacy (responses r)"
  by (simp add: pre_save_def recompute_def o_def Let_def)

lemma pre_save_isActive [simp]:
  "map isActive (responses (pre_save now r)) = map isActive (responses r)"
  by (simp add: pre_save_def recompute_def o_def Let_def)

lemma pre_save_accepted [simp]:
  "acceptedPharmacy (pre_save now r) = acceptedPharmacy r"
  by (simp add: pre_save_def Let_def)

lemma pre_save_status:
  "status (pre_save now r) = (if status r = Open \<and> expiresAt r < now then Expired else status r)"
  by (simp add: pre_save_def Let_def)

lemma recompute_fields [simp]:
  "pharmacy (recompute x) = pharmacy x" "isActive (recompute x) = isActive x"
  "totalPrice (recompute x) = totalPrice x" "discount (recompute x) = discount x"
  by (simp_all add: recompute_def)

lemma pre_save_filter_active [simp]:
  "map pharmacy (filter isActive (responses (pre_save now r))) =
   map pharmacy (filter isActive (responses r))"
  by (simp add: pre_save_def Let_def filter_map o_def)

lemma pre_save_list_all_active [simp]:
  "list_all isActive (responses (pre_save now r)) = list_all isActive (responses r)"
  by (simp add: pre_save_def Let_def list_all_iff)


text \<open>The shape of each successful operation's saved request.\<close>

lemma stored_cases:
  "(\<exists>e. res = Inl e \<and> stored r res = r) \<or> (\<exists>r' ns. res = Inr (r', ns) \<and> stored r res = r')"
  by (cases res) (auto simp: stored_def)

lemma respondToRequest_Inr:
  assumes "respondToRequest sock now u meds r = Inr (r', ns)"
  shows "role u = pharmacy_role \<and> status r = Open \<and> uid u \<notin> pharmacy ` set (responses r) \<and>
    (\<exists>t f. r' = pre_save now
        (r\<lparr>responses := responses r @
              [\<lparr>pharmacy = uid u, availableMedicines = meds, totalPrice = t,
                discount = (if t > 1000 then 5 else 0), finalPrice = f, isActive = True\<rparr>],
           responseCount := responseCount r + 1\<rparr>))"
proof -
  from assms have a: "role u = pharmacy_role" "status r = Open"
    by (auto simp add: respondToRequest_def split: if_splits)
  with assms have f: "find (\<lambda>x. pharmacy x = uid u) (responses r) = None"
    by (cases "find (\<lambda>x. pharmacy x = uid u) (responses r)")
       (simp_all add: respondToRequest_def addResponse_def Let_def)
  then have n: "uid u \<notin> pharmacy ` set (responses r)"
    by (auto simp: find_None_iff)
  from assms a f have "r' = pre_save now
        (r\<lparr>responses := responses r @
              [\<lparr>pharmacy = uid u, availableMedicines = meds, totalPrice = sum_prices meds 0,
                discount = (if sum_prices meds 0 > 1000 then 5 else 0),
                finalPrice = js_sub (sum_prices meds 0)
                  (js_div (js_mul (sum_prices meds 0)
                     (if sum_prices meds 0 > 1000 then 5 else 0)) 100),
                isActive = True\<rparr>],
           responseCount := responseCount r + 1\<rparr>)"
    by (simp add: respondToRequest_def addResponse_def Let_def)
  with a n show ?thesis by blast
qed

lemma updateRequestStatus_Inr:
  assumes "updateRequestStatus sock now u new nts r = Inr (r', ns)"
  shows "r' = pre_save now ((if nts \<noteq> [] then r\<lparr>request_notes := nts\<rparr> else r)\<lparr>status := new\<rparr>)"
  using assms by (auto simp add: updateRequestStatus_def Let_def split: if_splits)

lemma addCommunication_Inr:
  assumes "addCommunication sock now u msg r = Inr (r', ns)"
  shows "r' = pre_save now (r\<lparr>communication := communication r @ [(uid u, msg)]\<rparr>)"
  using assms
  by (auto simp add: addCommunication_def addCommunication_method_def Let_def split: if_splits)

lemma updatePrescription_Inr:
  assumes "updatePrescription sock now u r = Inr (r', ns)"
  shows "r' = pre_save now r"
  using assms by (auto simp add: updatePrescription_def Let_def split: if_splits)

section \<open>One response per pharmacy\<close>

lemma step_distinct:
  assumes "distinct (map pharmacy (responses r))"
  shows "distinct (map pharmacy (responses (step sock r op)))"
proof (cases op)
  case (Respond now u meds)
  show ?thesis
    using stored_cases [of "respondToRequest sock now u meds r" r] assms
    by (auto simp add: Respond dest!: respondToRequest_Inr)
next
  case (Accept now u pharmacyId)
  show ?thesis
    using assms by (simp add: Accept acceptPharmacy_fails)
next
  case (UpdateStatus now u new nts)
  show ?thesis
    using stored_cases [of "updateRequestStatus sock now u new nts r" r] assms
    by (auto simp add: UpdateStatus dest!: updateRequestStatus_Inr)
next
  case (AddCommunication now u msg)
  show ?thesis
    using stored_cases [of "addCommunication sock now u msg r" r] assms
    by (auto simp add: AddCommunication dest!: addCommunication_Inr)
next
  case (UpdatePrescription now u)
  show ?thesis
    using stored_cases [of "updatePrescription sock now u r" r] assms
    by (auto simp add: UpdatePrescription dest!: updatePrescription_Inr)
qed

lemma run_distinct:
  "distinct (map pharmacy (responses r)) \<Longrightarrow> distinct (map pharmacy (responses (run sock r ops)))"
  unfolding run_def by (induction ops arbitrary: r) (simp_all add: step_distinct)

lemma createRequest_fresh:
  assumes "createRequest sock t0 p meds0 urg lat lon = Inr (r0, ns0)"
  shows "responses r0 = [] \<and> status r0 = Open \<and> acceptedPharmacy r0 = None"
  using assms by (auto simp add: createRequest_def pre_save_def Let_def split: if_splits)

lemma respondToRequest_duplicate:
  assumes "role u = pharmacy_role" and "uid u \<in> pharmacy ` set (responses r)"
  shows "(\<exists>e. respondToRequest sock now u meds r = Inl e) \<and>
         (status r = Open \<longrightarrow> respondToRequest sock now u meds r = Inl DuplicateResponse) \<and>
         stored r (respondToRequest sock now u meds r) = r"
proof -
  from assms(2) obtain x where "find (\<lambda>x. pharmacy x = uid u) (responses r) = Some x"
    using find_pharmacy_Some by blast
  with assms(1) show ?thesis
    by (simp add: respondToRequest_def addResponse_def stored_def Let_def)
qed

text \<open>
  Claim C2. In every state \<open>r\<close> that a newly created request reaches through any
  sequence of operations (responses, acceptances, status updates, messages, prescription
  updates; a failed operation stores nothing), no two responses have the same pharmacy
  id. A pharmacy that already has a response on \<open>r\<close> gets an error and the stored
  request is unchanged; the error is \<open>DuplicateResponse\<close> when the request is open
  (a request that is not open answers \<open>RequestClosed\<close> first, as in scenario 4).
\<close>

theorem submitResponse_unique:
  assumes "createRequest sock t0 p meds0 urg lat lon = Inr (r0, ns0)"
    and "r = run sock r0 ops"
  shows "distinct (map pharmacy (responses r)) \<and>
         (\<forall>u now meds. role u = pharmacy_role \<and> uid u \<in> pharmacy ` set (responses r) \<longrightarrow>
            (\<exists>e. respondToRequest sock now u meds r = Inl e) \<and>
            (status r = Open \<longrightarrow> respondToRequest sock now u meds r = Inl DuplicateResponse) \<and>
            stored r (respondToRequest sock now u meds r) = r)"
proof -
  from assms(1) have "distinct (map pharmacy (responses r0))"
    using createRequest_fresh by fastforce
  then have "distinct (map pharmacy (responses r))"
    unfolding assms(2) by (rule run_distinct)
  then show ?thesis
    using respondToRequest_duplicate by blast
qed


theorem submitResponse_unique_witness:
  "distinct (map pharmacy (responses request2)) \<and>
   respondToRequest True 7 pharmacyB offerB request2 = Inl DuplicateResponse \<and>
   stored request2 (respondToRequest True 7 pharmacyB offerB request2) = request2"
proof -
  have h: "request2 = run True request0 [Respond 5 pharmacyA offerA, Respond 6 pharmacyB offerB]"
    by (simp add: scenario_two_offers)
  have p: "role pharmacyB = pharmacy_role \<and> uid pharmacyB \<in> pharmacy ` set (responses request2)"
    by (simp add: pharmacyB_def request2_def)
  have o: "status request2 = Open"
    by (simp add: request2_def)
  from submitResponse_unique [OF scenario_create h] p o show ?thesis
    by blast
qed

section \<open>Prices\<close>

lemma price_ok_recompute: "discount_ok x \<Longrightarrow> price_ok (recompute x)"
  by (auto simp add: price_ok_def discount_ok_def recompute_def split: if_splits)

lemma pre_save_price_ok:
  "list_all discount_ok (responses r) \<Longrightarrow> list_all price_ok (responses (pre_save now r))"
  by (auto simp add: pre_save_def Let_def list_all_iff price_ok_recompute)

lemma price_ok_discount_ok: "list_all price_ok xs \<Longrightarrow> list_all discount_ok xs"
  by (auto simp add: list_all_iff price_ok_def)

lemma discount_ok_fields [simp]:
  "list_all discount_ok (responses (r\<lparr>status := s\<rparr>)) = list_all discount_ok (responses r)"
  "list_all discount_ok (responses (r\<lparr>request_notes := n\<rparr>)) =
   list_all discount_ok (responses r)"
  "list_all discount_ok (responses (r\<lparr>communication := c\<rparr>)) =
   list_all discount_ok (responses r)"
  by simp_all

lemma step_price_ok:
  assumes "list_all price_ok (responses r)"
  shows "list_all price_ok (responses (step sock r op))"
proof -
  note d = price_ok_discount_ok [OF assms]
  show ?thesis
  proof (cases op)
    case (Respond now u meds)
    have "list_all price_ok (responses r')"
      if "respondToRequest sock now u meds r = Inr (r', ns)" for r' ns
    proof -
      from respondToRequest_Inr [OF that] obtain t f where
        r': "r' = pre_save now
          (r\<lparr>responses := responses r @
                [\<lparr>pharmacy = uid u, availableMedicines = meds, totalPrice = t,
                  discount = (if t > 1000 then 5 else 0), finalPrice = f, isActive = True\<rparr>],
             responseCount := responseCount r + 1\<rparr>)"
        by blast
      from d have "list_all discount_ok
          (responses (r\<lparr>responses := responses r @
                [\<lparr>pharmacy = uid u, availableMedicines = meds, totalPrice = t,
                  discount = (if t > 1000 then 5 else 0), finalPrice = f, isActive = True\<rparr>],
             responseCount := responseCount r + 1\<rparr>))"
        by (simp add: discount_ok_def)
      then show ?thesis
        unfolding r' by (rule pre_save_price_ok)
    qed
    with stored_cases [of "respondToRequest sock now u meds r" r] assms show ?thesis
      by (auto simp add: Respond)
  next
    case (Accept now u pharmacyId)
    show ?thesis
      using assms by (simp add: Accept acceptPharmacy_fails)
  next
    case (UpdateStatus now u new nts)
    show ?thesis
      using stored_cases [of "updateRequestStatus sock now u new nts r" r] assms d
      by (auto simp add: UpdateStatus dest!: updateRequestStatus_Inr intro!: pre_save_price_ok)
  next
    case (AddCommunication now u msg)
    show ?thesis
      using stored_cases [of "addCommunication sock now u msg r" r] assms d
      by (auto simp add: AddCommunication dest!: addCommunication_Inr intro!: pre_save_price_ok)
  next
    case (UpdatePrescription now u)
    show ?thesis
      using stored_cases [of "updatePrescription sock now u r" r] assms d
      by (auto simp add: UpdatePrescription dest!: updatePrescription_Inr
          intro!: pre_save_price_ok)
  qed
qed

lemma run_price_ok:
  "list_all price_ok (responses r) \<Longrightarrow> list_all price_ok (responses (run sock r ops))"
  unfolding run_def by (induction ops arbitrary: r) (simp_all add: step_price_ok)

text \<open>The two expressions for the final price of a total of 1001, in binary64.\<close>

lemma code_price_1001:
  "js_sub 1001 (js_div (js_mul 1001 5) 100) = 4182322329734349 / 4398046511104"
proof -
  have "double_round (5005 / 100) =
      of_int (round_even ((5005 / 100) / 2 powr (of_int 5 - 52))) * 2 powr (of_int 5 - 52)"
    by (rule double_round_eval) simp_all
  also have "\<dots> = 3521955646092083 / 70368744177664"
    by (simp add: powr_minus round_even_def Let_def)
  finally have q: "js_div (js_mul 1001 5) 100 = 3521955646092083 / 70368744177664"
    by (simp add: js_div_def js_mul_def)
  have "double_round (1001 - 3521955646092083 / 70368744177664) =
      of_int (round_even ((1001 - 3521955646092083 / 70368744177664) /
        2 powr (of_int 9 - 52))) * 2 powr (of_int 9 - 52)"
    by (rule double_round_eval) simp_all
  also have "\<dots> = 4182322329734349 / 4398046511104"
    by (simp add: powr_minus round_even_def Let_def)
  finally show ?thesis
    by (simp add: js_sub_def q)
qed

lemma spec_price_1001:
  "js_mul 1001 (js_sub 1 (js_div 5 100)) = 8364644659468697 / 8796093022208"
proof -
  have "double_round (5 / 100) =
      of_int (round_even ((5 / 100) / 2 powr (of_int (- 5) - 52))) * 2 powr (of_int (- 5) - 52)"
    by (rule double_round_eval) (simp_all add: powr_minus)
  also have "\<dots> = 3602879701896397 / 72057594037927936"
    by (simp add: powr_minus round_even_def Let_def)
  finally have q: "js_div 5 100 = 3602879701896397 / 72057594037927936"
    by (simp add: js_div_def)
  have "double_round (1 - 3602879701896397 / 72057594037927936) =
      of_int (round_even ((1 - 3602879701896397 / 72057594037927936) /
        2 powr (of_int (- 1) - 52))) * 2 powr (of_int (- 1) - 52)"
    by (rule double_round_eval) (simp_all add: powr_minus)
  also have "\<dots> = 4278419646001971 / 4503599627370496"
    by (simp add: powr_minus round_even_def Let_def)
  finally have s: "js_sub 1 (js_div 5 100) = 4278419646001971 / 4503599627370496"
    by (simp add: js_sub_def q)
  have "double_round (1001 * (4278419646001971 / 4503599627370496)) =
      of_int (round_even ((1001 * (4278419646001971 / 4503599627370496)) /
        2 powr (of_int 9 - 52))) * 2 powr (of_int 9 - 52)"
    by (rule double_round_eval) simp_all
  also have "\<dots> = 8364644659468697 / 8796093022208"
    by (simp add: powr_minus round_even_def Let_def)
  finally show ?thesis
    by (simp add: js_mul_def s)
qed

text \<open>
  Claim C6 fails for a total of 1001. The response is stored with discount 5 and the
  final price 950.95000000000004547 (the binary64 value of
  \<^verbatim>\<open>1001 - 1001 * 5 / 100\<close>). That is not the real number \<open>1001 * (1 - 5 / 100)\<close>,
  and it is not the binary64 value of \<^verbatim>\<open>1001 * (1 - 5 / 100)\<close> either, which is one
  unit in the last place smaller.
\<close>

theorem price_determinism_counterexample:
  "respondToRequest True 5 pharmacyA
     [\<lparr>medicineName = ''Paracetamol'', available = True, price = Some 1001\<rparr>] request0 =
   Inr (request0\<lparr>responses :=
           [\<lparr>pharmacy = 1,
             availableMedicines =
               [\<lparr>medicineName = ''Paracetamol'', available = True, price = Some 1001\<rparr>],
             totalPrice = 1001, discount = 5,
             finalPrice = 4182322329734349 / 4398046511104, isActive = True\<rparr>],
          responseCount := 1\<rparr>,
        [(ToUser 10, pharmacy_responded)]) \<and>
   (4182322329734349 / 4398046511104 :: real) \<noteq> 1001 * (1 - 5 / 100) \<and>
   js_mul 1001 (js_sub 1 (js_div 5 100)) = 8364644659468697 / 8796093022208 \<and>
   (4182322329734349 / 4398046511104 :: real) \<noteq> 8364644659468697 / 8796093022208"
proof -
  have "sum_prices [\<lparr>medicineName = ''Paracetamol'', available = True, price = Some 1001\<rparr>] 0 =
      1001"
    by (simp add: js_add_def)
  then have "respondToRequest True 5 pharmacyA
     [\<lparr>medicineName = ''Paracetamol'', available = True, price = Some 1001\<rparr>] request0 =
   Inr (request0\<lparr>responses :=
           [\<lparr>pharmacy = 1,
             availableMedicines =
               [\<lparr>medicineName = ''Paracetamol'', available = True, price = Some 1001\<rparr>],
             totalPrice = 1001, discount = 5,
             finalPrice = 4182322329734349 / 4398046511104, isActive = True\<rparr>],
          responseCount := 1\<rparr>,
        [(ToUser 10, pharmacy_responded)])"
    by (simp add: respondToRequest_def addResponse_def pre_save_def recompute_def
        code_price_1001 request0_def pharmacyA_def)
  then show ?thesis
    by (simp add: spec_price_1001)
qed

text \<open>
  Claim C6 as amended. Every response of every state that a newly created request
  reaches has discount 5 when its total exceeds 1000 and 0 otherwise; its final price is
  the total when the discount is 0 and otherwise the binary64 value of
  \<^verbatim>\<open>totalPrice - totalPrice * 5 / 100\<close>. Every save sets the final price of each
  response again, from its stored total and discount. In scenario 2 the totals 1200 and
  900 get discount 5 with final price 1140 and discount 0 with final price 900.
\<close>

theorem price_determinism:
  assumes "createRequest sock t0 p meds0 urg lat lon = Inr (r0, ns0)"
  shows "(\<forall>x \<in> set (responses (run sock r0 ops)).
            discount x = (if totalPrice x > 1000 then 5 else 0) \<and>
            finalPrice x =
              (if totalPrice x > 1000
               then js_sub (totalPrice x) (js_div (js_mul (totalPrice x) 5) 100)
               else totalPrice x)) \<and>
         (\<forall>now r.
            map finalPrice (responses (pre_save now r)) =
            map (\<lambda>y. if discount y > 0
                      then js_sub (totalPrice y) (js_div (js_mul (totalPrice y) (discount y)) 100)
                      else totalPrice y) (responses r)) \<and>
         map (\<lambda>x. (totalPrice x, discount x, finalPrice x))
           (responses (run True request0 [Respond 5 pharmacyA offerA, Respond 6 pharmacyB offerB])) =
         [(1200, 5, 1140), (900, 0, 900)]"
proof -
  from assms have "list_all price_ok (responses r0)"
    using createRequest_fresh by fastforce
  then have "list_all price_ok (responses (run sock r0 ops))"
    by (rule run_price_ok)
  then have a: "\<forall>x \<in> set (responses (run sock r0 ops)).
            discount x = (if totalPrice x > 1000 then 5 else 0) \<and>
            finalPrice x =
              (if totalPrice x > 1000
               then js_sub (totalPrice x) (js_div (js_mul (totalPrice x) 5) 100)
               else totalPrice x)"
    by (simp add: list_all_iff price_ok_def discount_ok_def)
  have b: "map finalPrice (responses (pre_save now r)) =
        map (\<lambda>y. if discount y > 0
                  then js_sub (totalPrice y) (js_div (js_mul (totalPrice y) (discount y)) 100)
                  else totalPrice y) (responses r)" for now r
    by (simp add: pre_save_def Let_def recompute_def)
  have c: "map (\<lambda>x. (totalPrice x, discount x, finalPrice x))
           (responses (run True request0 [Respond 5 pharmacyA offerA, Respond 6 pharmacyB offerB])) =
         [(1200, 5, 1140), (900, 0, 900)]"
    by (simp add: scenario_two_offers) (simp add: request2_def)
  from a b c show ?thesis by blast
qed

theorem price_determinism_witness:
  "responses (run True request0 [Respond 5 pharmacyA offerA, Respond 6 pharmacyB offerB]) =
     responses request2 \<and>
   totalPrice (hd (responses request2)) = 1200 \<and>
   discount (hd (responses request2)) = 5 \<and>
   finalPrice (hd (responses request2)) =
     js_sub (totalPrice (hd (responses request2)))
       (js_div (js_mul (totalPrice (hd (responses request2))) 5) 100)"
proof -
  have e: "responses (run True request0 [Respond 5 pharmacyA offerA, Respond 6 pharmacyB offerB]) =
      responses request2"
    by (simp add: scenario_two_offers)
  have m: "hd (responses request2) \<in> set (responses request2)"
    by (simp add: request2_def)
  have t: "totalPrice (hd (responses request2)) = 1200"
    by (simp add: request2_def)
  note T = price_determinism
    [OF scenario_create, of "[Respond 5 pharmacyA offerA, Respond 6 pharmacyB offerB]"]
  note x = bspec [OF T [THEN conjunct1, unfolded e] m]
  from x t e show ?thesis
    by simp
qed

section \<open>Responses stay active\<close>

lemma step_active:
  assumes "acceptedPharmacy r = None \<and> list_all isActive (responses r)"
    and "\<not> is_accept op"
  shows "acceptedPharmacy (step sock r op) = None \<and>
         list_all isActive (responses (step sock r op))"
proof (cases op)
  case (Respond now u meds)
  show ?thesis
    using stored_cases [of "respondToRequest sock now u meds r" r] assms(1)
    by (auto simp add: Respond dest!: respondToRequest_Inr)
next
  case (Accept now u pharmacyId)
  with assms(2) show ?thesis by simp
next
  case (UpdateStatus now u new nts)
  show ?thesis
    using stored_cases [of "updateRequestStatus sock now u new nts r" r] assms(1)
    by (auto simp add: UpdateStatus dest!: updateRequestStatus_Inr)
next
  case (AddCommunication now u msg)
  show ?thesis
    using stored_cases [of "addCommunication sock now u msg r" r] assms(1)
    by (auto simp add: AddCommunication dest!: addCommunication_Inr)
next
  case (UpdatePrescription now u)
  show ?thesis
    using stored_cases [of "updatePrescription sock now u r" r] assms(1)
    by (auto simp add: UpdatePrescription dest!: updatePrescription_Inr)
qed

lemma run_active:
  "acceptedPharmacy r = None \<and> list_all isActive (responses r) \<Longrightarrow>
   \<not> list_ex is_accept ops \<Longrightarrow>
   acceptedPharmacy (run sock r ops) = None \<and> list_all isActive (responses (run sock r ops))"
  unfolding run_def
proof (induction ops arbitrary: r)
  case Nil
  then show ?case by simp
next
  case (Cons op ops)
  from Cons.prems have "acceptedPharmacy (step sock r op) = None \<and>
      list_all isActive (responses (step sock r op))"
    by (intro step_active) simp_all
  moreover from Cons.prems(2) have "\<not> list_ex is_accept ops"
    by simp
  ultimately show ?case
    using Cons.IH by simp
qed

text \<open>
  Claim C3 as amended. Take any state \<open>r\<close> that a newly created request reaches by
  operations other than the acceptance of a response: responses, status updates,
  messages, prescription updates, and the expiry that their saves apply. Whatever the
  status of \<open>r\<close> is, no pharmacy is recorded as accepted and every response is still
  active: expiry and status updates, cancellation among them, change the status only.
\<close>

theorem responses_stay_active:
  assumes "createRequest sock t0 p meds0 urg lat lon = Inr (r0, ns0)"
    and "\<not> list_ex is_accept ops"
    and "r = run sock r0 ops"
  shows "acceptedPharmacy r = None \<and> list_all isActive (responses r)"
proof -
  have "acceptedPharmacy r0 = None \<and> list_all isActive (responses r0)"
    using createRequest_fresh [OF assms(1)] by simp
  from this assms(2) show ?thesis
    unfolding assms(3) by (rule run_active)
qed

text \<open>
  Claim C3 fails for expired and for cancelled requests. The request of scenario 2 is
  saved after its expiry time, or cancelled by its patient: it is no longer open, both
  responses are still active and no pharmacy is recorded as accepted.
\<close>

theorem single_acceptance_counterexample:
  "createRequest True 0 patient0 [\<lparr>name = ''Paracetamol'', quantity = Some 2\<rparr>] Normal
     (3077 / 100) (7657 / 100) =
   Inr (request0, [(NearbyPharmacies (3077 / 100) (7657 / 100), new_medicine_request)]) \<and>
   run True request0 [Respond 5 pharmacyA offerA, Respond 6 pharmacyB offerB,
     UpdatePrescription 86400001 patient0] = request2\<lparr>status := Expired\<rparr> \<and>
   run True request0 [Respond 5 pharmacyA offerA, Respond 6 pharmacyB offerB,
     UpdateStatus 7 patient0 Cancelled []] = request2\<lparr>status := Cancelled\<rparr> \<and>
   length (filter isActive (responses (request2\<lparr>status := Expired\<rparr>))) = 2 \<and>
   acceptedPharmacy (request2\<lparr>status := Expired\<rparr>) = None \<and>
   length (filter isActive (responses (request2\<lparr>status := Cancelled\<rparr>))) = 2 \<and>
   acceptedPharmacy (request2\<lparr>status := Cancelled\<rparr>) = None"
  by (simp add: createRequest_def run_def stored_def respondToRequest_def addResponse_def
      updatePrescription_def updateRequestStatus_def pre_save_def
      recompute_def js_add_def js_sub_def js_mul_def js_div_def request0_def request2_def patient0_def pharmacyA_def pharmacyB_def
      offerA_def offerB_def)

theorem responses_stay_active_witness:
  "\<not> list_ex is_accept
       [Respond 5 pharmacyA offerA, Respond 6 pharmacyB offerB,
        UpdateStatus 7 patient0 Cancelled []] \<and>
   status (run True request0
     [Respond 5 pharmacyA offerA, Respond 6 pharmacyB offerB,
      UpdateStatus 7 patient0 Cancelled []]) = Cancelled \<and>
   acceptedPharmacy (run True request0
     [Respond 5 pharmacyA offerA, Respond 6 pharmacyB offerB,
      UpdateStatus 7 patient0 Cancelled []]) = None \<and>
   list_all isActive (responses (run True request0
     [Respond 5 pharmacyA offerA, Respond 6 pharmacyB offerB,
      UpdateStatus 7 patient0 Cancelled []]))"
proof -
  have n: "\<not> list_ex is_accept
       [Respond 5 pharmacyA offerA, Respond 6 pharmacyB offerB,
        UpdateStatus 7 patient0 Cancelled []]"
    by simp
  have s: "status (run True request0
     [Respond 5 pharmacyA offerA, Respond 6 pharmacyB offerB,
      UpdateStatus 7 patient0 Cancelled []]) = Cancelled"
    by (simp add: run_def stored_def respondToRequest_def addResponse_def
        updateRequestStatus_def pre_save_def recompute_def js_add_def js_sub_def js_mul_def
        js_div_def request0_def patient0_def pharmacyA_def pharmacyB_def offerA_def
        offerB_def)
  from responses_stay_active [OF scenario_create n refl] n s show ?thesis
    by blast
qed

section \<open>The distance shown to a pharmacy\<close>

lemma binary_NaN [simp]: "binary f None b = None" "binary f a None = None"
  by (simp_all add: binary_def split: option.splits)

lemma unary_NaN [simp]: "unary f None = None"
  by (simp add: unary_def)

text \<open>
  Claim C9, evaluated on \<^verbatim>\<open>getNearbyRequests\<close>. The pharmacy's coordinates are an array
  of two numbers; the names \<^verbatim>\<open>longitude\<close> and \<^verbatim>\<open>latitude\<close> read from it are
  \<^verbatim>\<open>undefined\<close>, the distance computed from them is \<open>NaN\<close> whatever the primitives
  do on numbers, and the distance attached to every listed request is \<open>NaN\<close>.
\<close>

theorem getNearbyRequests_distance_NaN:
  "calculateDistance M Undefined Undefined lat2 lon2 = None \<and>
   requestsWithDistance M [Some lon, Some lat] paginatedRequests =
     map (\<lambda>request. (request, None)) paginatedRequests"
  by (simp add: requestsWithDistance_def array_get_def calculateDistance_def ToNumber_def
      Let_def)

end
